theory Spec2Isabelle
  imports Main
begin

section \<open>Data model\<close>

text \<open>
  The enumerations of \<^verbatim>\<open>models/alert.py\<close>, with the members in the order of the source.
\<close>

datatype AlertType = EMAIL_VIP | EMAIL_EMERGENCY | MEETING_REMINDER | MORNING_BRIEFING | SYSTEM

datatype AlertPriority = LOW | NORMAL | HIGH | URGENT

datatype AlertStatus = PENDING | SENT | READ | DISMISSED

text \<open>
  A point in time is a number of seconds. A nullable column is an \<open>option\<close>. The
  primary key \<^verbatim>\<open>id\<close> of each table is renamed (\<open>alert_id\<close>, \<open>u_id\<close>, \<open>e_id\<close>,
  \<open>ev_id\<close>), and so are the foreign keys of the tables other than alerts, since the
  fields of all records share one name space. A source name that starts with an
  underscore loses it (\<^verbatim>\<open>_send_alert_notification\<close> is \<open>send_alert_notification\<close>).
  The text columns \<^verbatim>\<open>title\<close>, \<^verbatim>\<open>message\<close> and \<^verbatim>\<open>metadata\<close> and the column
  \<^verbatim>\<open>updated_at\<close> are not part of the model: no operation below reads them.
\<close>

type_synonym timestamp = int

record Alert =
  alert_id :: nat
  user_id :: nat
  alert_type :: AlertType
  priority :: AlertPriority
  status :: AlertStatus
  email_id :: "nat option"
  calendar_event_id :: "nat option"
  send_email :: bool
  send_push :: bool
  send_sms :: bool
  scheduled_for :: "timestamp option"
  sent_at :: "timestamp option"
  read_at :: "timestamp option"
  dismissed_at :: "timestamp option"
  created_at :: timestamp

text \<open>The columns of \<^verbatim>\<open>models/user.py\<close> that the alert engine reads.\<close>

record User =
  u_id :: nat
  email :: string
  is_active :: bool
  morning_briefing_time :: "string option"

text \<open>The flags of \<^verbatim>\<open>models/email.py\<close> that the alert engine reads.\<close>

record Email =
  e_id :: nat
  e_user_id :: nat
  is_emergency :: bool
  is_from_vip :: bool

text \<open>
  The columns of \<^verbatim>\<open>models/calendar_event.py\<close> that the reminder scan reads. The
  Python value of \<^verbatim>\<open>start_datetime\<close> is an instant together with the fact whether it
  carries a time zone: a value loaded from a \<^verbatim>\<open>DateTime(timezone=True)\<close> column does or
  does not, depending on the database.
\<close>

record CalendarEvent =
  ev_id :: nat
  ev_user_id :: nat
  start_datetime :: timestamp
  start_tz_aware :: bool
  reminder_sent :: bool
  reminder_minutes_before :: int

text \<open>The Python exceptions that the code below can meet.\<close>

datatype py_exception = TypeError | InvalidRequestError

text \<open>
  What a run leaves behind besides the tables, in order: the calls of the \<^verbatim>\<open>Alert\<close>
  constructor with the column values they pass, the calls to the mail collaborator, the
  lines the notification code writes to the logger, the \<^verbatim>\<open>logger.error\<close> line of an
  exception handler (with the fixed part of its text), and the error line of a scheduled
  task whose body raised (with the name of the task).
\<close>

datatype event =
    AlertInit Alert
  | SmtpSend nat
  | LogEmailSent nat
  | LogEmailFailed nat
  | LogEmailError nat
  | LogPush nat
  | LogSms nat
  | LogError string
  | LogTaskError string

text \<open>
  The database session and the logger. Each table is the list of its rows in insertion
  order; \<open>db_clock\<close> is what the clock of the database server reads
  (\<^verbatim>\<open>func.now()\<close>), which is not the clock of the Python process. A commit is taken
  to succeed, so an operation returns the tables as they are after its commit.
\<close>

record world =
  alerts :: "Alert list"
  users :: "User list"
  calendar_events :: "CalendarEvent list"
  db_clock :: timestamp
  log :: "event list"

section \<open>The object-relational mapping (models/*.py)\<close>

text \<open>
  Every \<^verbatim>\<open>relationship(target, back_populates=name)\<close> of the five model classes: the
  class that declares it, its attribute name, the target class and the attribute of the
  target that \<^verbatim>\<open>back_populates\<close> names.
\<close>

record relationship =
  rel_class :: string
  rel_name :: string
  rel_target :: string
  rel_back_populates :: string

definition orm_mapping :: "relationship list" where
  "orm_mapping =
     [\<lparr>rel_class = ''User'', rel_name = ''emails'', rel_target = ''Email'',
        rel_back_populates = ''user''\<rparr>,
      \<lparr>rel_class = ''User'', rel_name = ''email_rules'', rel_target = ''EmailRule'',
        rel_back_populates = ''user''\<rparr>,
      \<lparr>rel_class = ''User'', rel_name = ''calendar_events'', rel_target = ''CalendarEvent'',
        rel_back_populates = ''user''\<rparr>,
      \<lparr>rel_class = ''User'', rel_name = ''alerts'', rel_target = ''Alert'',
        rel_back_populates = ''user''\<rparr>,
      \<lparr>rel_class = ''Email'', rel_name = ''user'', rel_target = ''User'',
        rel_back_populates = ''emails''\<rparr>,
      \<lparr>rel_class = ''Email'', rel_name = ''alerts'', rel_target = ''Alert'',
        rel_back_populates = ''email''\<rparr>,
      \<lparr>rel_class = ''EmailRule'', rel_name = ''user'', rel_target = ''User'',
        rel_back_populates = ''email_rules''\<rparr>,
      \<lparr>rel_class = ''CalendarEvent'', rel_name = ''user'', rel_target = ''User'',
        rel_back_populates = ''calendar_events''\<rparr>,
      \<lparr>rel_class = ''Alert'', rel_name = ''user'', rel_target = ''User'',
        rel_back_populates = ''alerts''\<rparr>,
      \<lparr>rel_class = ''Alert'', rel_name = ''email'', rel_target = ''Email'',
        rel_back_populates = ''alerts''\<rparr>,
      \<lparr>rel_class = ''Alert'', rel_name = ''calendar_event'', rel_target = ''CalendarEvent'',
        rel_back_populates = ''alerts''\<rparr>]"

text \<open>
  SQLAlchemy configures all mappers together, the first time a mapped class is
  instantiated or queried, and again on every later use when that failed. For each
  relationship it looks up the attribute that \<^verbatim>\<open>back_populates\<close> names on the target
  class; when the target has none it raises \<^verbatim>\<open>InvalidRequestError\<close>. (No model class
  has a column whose name a \<^verbatim>\<open>back_populates\<close> uses.)
\<close>

definition has_relationship :: "relationship list \<Rightarrow> string \<Rightarrow> string \<Rightarrow> bool" where
  "has_relationship rels cls name = list_ex (\<lambda>r. rel_class r = cls \<and> rel_name r = name) rels"

definition configure_mappers :: "relationship list \<Rightarrow> py_exception + unit" where
  "configure_mappers rels =
     (if list_all (\<lambda>r. has_relationship rels (rel_target r) (rel_back_populates r)) rels
      then Inr () else Inl InvalidRequestError)"

text \<open>
  \<^verbatim>\<open>db.query(Model)\<close> on a table, and the call \<^verbatim>\<open>Alert(...)\<close> with the column values
  it passes: each configures the mappers first.
\<close>

definition db_query :: "'a list \<Rightarrow> py_exception + 'a list" where
  "db_query table =
     (case configure_mappers orm_mapping of Inl e \<Rightarrow> Inl e | Inr u \<Rightarrow> Inr table)"

definition Alert_init :: "Alert \<Rightarrow> py_exception + Alert" where
  "Alert_init values =
     (case configure_mappers orm_mapping of Inl e \<Rightarrow> Inl e | Inr u \<Rightarrow> Inr values)"

section \<open>The store\<close>

text \<open>\<^verbatim>\<open>Query.first()\<close>: the first row of the result, or \<^verbatim>\<open>None\<close>.\<close>

definition query_first :: "'a list \<Rightarrow> 'a option" where
  "query_first rows = (case rows of [] \<Rightarrow> None | r # _ \<Rightarrow> Some r)"

text \<open>
  The commit of a changed alert object is an \<^verbatim>\<open>UPDATE\<close> of the changed columns of the
  row with the object's primary key.
\<close>

definition update_row :: "nat \<Rightarrow> (Alert \<Rightarrow> Alert) \<Rightarrow> Alert list \<Rightarrow> Alert list" where
  "update_row k f rows = map (\<lambda>r. if alert_id r = k then f r else r) rows"

text \<open>The key the database gives to the next inserted alert: above every key in use.\<close>

definition next_id :: "Alert list \<Rightarrow> nat" where
  "next_id rows = Suc (fold max (map alert_id rows) 0)"


text \<open>
  The columns a call of the constructor leaves out take the defaults of the model
  (\<^verbatim>\<open>priority\<close> normal, \<^verbatim>\<open>status\<close> pending, \<^verbatim>\<open>send_email\<close> false,
  \<^verbatim>\<open>send_push\<close> true, \<^verbatim>\<open>send_sms\<close> false, the rest null).
\<close>

definition column_defaults :: "nat \<Rightarrow> AlertType \<Rightarrow> Alert" where
  "column_defaults uid ty =
     \<lparr> alert_id = 0, user_id = uid, alert_type = ty, priority = NORMAL, status = PENDING,
       email_id = None, calendar_event_id = None,
       send_email = False, send_push = True, send_sms = False,
       scheduled_for = None, sent_at = None, read_at = None, dismissed_at = None,
       created_at = 0 \<rparr>"

text \<open>
  \<^verbatim>\<open>db.add\<close>, \<^verbatim>\<open>db.commit\<close>, \<^verbatim>\<open>db.refresh\<close> of a new alert: the database assigns
  the key and stamps \<^verbatim>\<open>created_at\<close> from its own clock
  (\<^verbatim>\<open>server_default=func.now()\<close>).
\<close>

definition add_commit_refresh :: "Alert \<Rightarrow> world \<Rightarrow> Alert \<times> world" where
  "add_commit_refresh a w =
     (let a' = a\<lparr>alert_id := next_id (alerts w), created_at := db_clock w\<rparr>
      in (a', w\<lparr>alerts := alerts w @ [a']\<rparr>))"

section \<open>Dispatch (services/alert\_service.py)\<close>

text \<open>
  \<^verbatim>\<open>EmailService.send_email\<close> talks to an SMTP server. Its result is a parameter of the
  model: it returns \<^verbatim>\<open>True\<close>, returns \<^verbatim>\<open>False\<close>, or raises.
\<close>

datatype send_outcome = ReturnsTrue | ReturnsFalse | Raises

type_synonym mailer = "User \<Rightarrow> Alert \<Rightarrow> send_outcome"

text \<open>
  \<^verbatim>\<open>_send_email_notification\<close>: the whole body is inside \<^verbatim>\<open>try/except Exception\<close>, so
  each outcome of the collaborator ends in a log line and the function returns.
\<close>

definition send_email_notification :: "mailer \<Rightarrow> Alert \<Rightarrow> User \<Rightarrow> event list \<Rightarrow> event list" where
  "send_email_notification mail alert user lg =
     (case mail user alert of
        ReturnsTrue \<Rightarrow> lg @ [SmtpSend (alert_id alert), LogEmailSent (alert_id alert)]
      | ReturnsFalse \<Rightarrow> lg @ [SmtpSend (alert_id alert), LogEmailFailed (alert_id alert)]
      | Raises \<Rightarrow> lg @ [SmtpSend (alert_id alert), LogEmailError (alert_id alert)])"

text \<open>
  \<^verbatim>\<open>_send_push_notification\<close> and \<^verbatim>\<open>_send_sms_notification\<close> are placeholders: the
  body of each is one \<^verbatim>\<open>logger.info\<close> call naming the alert.
\<close>

definition send_push_notification :: "Alert \<Rightarrow> User \<Rightarrow> event list \<Rightarrow> event list" where
  "send_push_notification alert user lg = lg @ [LogPush (alert_id alert)]"

definition send_sms_notification :: "Alert \<Rightarrow> User \<Rightarrow> event list \<Rightarrow> event list" where
  "send_sms_notification alert user lg = lg @ [LogSms (alert_id alert)]"

text \<open>
  \<^verbatim>\<open>_send_alert_notification\<close>. The email branch is guarded by
  \<^verbatim>\<open>alert.send_email and user.email\<close>; a string is true when it is not empty. None of
  the three calls propagates an exception (the first has its own handler, the other two
  only log), so the statements after them always run: \<^verbatim>\<open>status\<close> and \<^verbatim>\<open>sent_at\<close> are
  assigned without a test of the previous status, and committed. The handler around the
  whole body is therefore never entered and has no branch here. \<open>now\<close> is the clock of
  the Python process read as \<^verbatim>\<open>datetime.now(timezone.utc)\<close>. The function returns the
  alert object as changed, and the world.
\<close>

definition send_alert_notification :: "mailer \<Rightarrow> timestamp \<Rightarrow> Alert \<Rightarrow> User \<Rightarrow> world \<Rightarrow> Alert \<times> world" where
  "send_alert_notification mail now alert user w =
     (let lg1 = (if send_email alert \<and> email user \<noteq> []
                 then send_email_notification mail alert user (log w) else log w);
          lg2 = (if send_push alert then send_push_notification alert user lg1 else lg1);
          lg3 = (if send_sms alert then send_sms_notification alert user lg2 else lg2);
          mark = (\<lambda>r. r\<lparr>status := SENT, sent_at := Some now\<rparr>)
      in (mark alert,
          w\<lparr>alerts := update_row (alert_id alert) mark (alerts w), log := lg3\<rparr>))"


section \<open>Alert construction (services/alert\_service.py)\<close>

text \<open>
  The four recipes have one body, up to the column values passed to the constructor and
  the text of the error line: inside \<^verbatim>\<open>try\<close>, call \<^verbatim>\<open>Alert(...)\<close>, insert the
  alert, dispatch it, return it; the handler logs the exception and raises it again.
  The result is the exception or the alert, and the world.
\<close>

definition construct_and_dispatch ::
  "mailer \<Rightarrow> timestamp \<Rightarrow> string \<Rightarrow> Alert \<Rightarrow> User \<Rightarrow> world \<Rightarrow> (py_exception + Alert) \<times> world" where
  "construct_and_dispatch mail now error_text values user w =
     (let w0 = w\<lparr>log := log w @ [AlertInit values]\<rparr>
      in case Alert_init values of
           Inl e \<Rightarrow> (Inl e, w0\<lparr>log := log w0 @ [LogError error_text]\<rparr>)
         | Inr new_alert \<Rightarrow>
             (let (alert, w1) = add_commit_refresh new_alert w0;
                  (sent, w2) = send_alert_notification mail now alert user w1
              in (Inr sent, w2)))"

definition create_email_vip_alert ::
  "mailer \<Rightarrow> timestamp \<Rightarrow> Email \<Rightarrow> User \<Rightarrow> world \<Rightarrow> (py_exception + Alert) \<times> world" where
  "create_email_vip_alert mail now em user w =
     construct_and_dispatch mail now ''Error creating VIP email alert''
       ((column_defaults (u_id user) EMAIL_VIP)
          \<lparr>email_id := Some (e_id em), priority := HIGH,
           send_email := True, send_push := True\<rparr>)
       user w"

definition create_emergency_email_alert ::
  "mailer \<Rightarrow> timestamp \<Rightarrow> Email \<Rightarrow> User \<Rightarrow> world \<Rightarrow> (py_exception + Alert) \<times> world" where
  "create_emergency_email_alert mail now em user w =
     construct_and_dispatch mail now ''Error creating emergency email alert''
       ((column_defaults (u_id user) EMAIL_EMERGENCY)
          \<lparr>email_id := Some (e_id em), priority := URGENT,
           send_email := True, send_push := True, send_sms := True\<rparr>)
       user w"

text \<open>
  The meeting recipe starts with
  \<^verbatim>\<open>calendar_event.start_datetime - datetime.now(timezone.utc)\<close>: Python refuses to
  subtract a datetime with a time zone from one without, with \<^verbatim>\<open>TypeError\<close>, which the
  handler logs and raises again before the constructor is called.
\<close>

definition create_meeting_reminder_alert ::
  "mailer \<Rightarrow> timestamp \<Rightarrow> CalendarEvent \<Rightarrow> User \<Rightarrow> world \<Rightarrow> (py_exception + Alert) \<times> world" where
  "create_meeting_reminder_alert mail now ev user w =
     (if start_tz_aware ev
      then construct_and_dispatch mail now ''Error creating meeting reminder alert''
             ((column_defaults (u_id user) MEETING_REMINDER)
                \<lparr>calendar_event_id := Some (ev_id ev), priority := NORMAL,
                 send_email := False, send_push := True\<rparr>)
             user w
      else (Inl TypeError,
            w\<lparr>log := log w @ [LogError ''Error creating meeting reminder alert'']\<rparr>))"

definition create_morning_briefing_alert ::
  "mailer \<Rightarrow> timestamp \<Rightarrow> User \<Rightarrow> world \<Rightarrow> (py_exception + Alert) \<times> world" where
  "create_morning_briefing_alert mail now user w =
     construct_and_dispatch mail now ''Error creating morning briefing alert''
       ((column_defaults (u_id user) MORNING_BRIEFING)
          \<lparr>priority := NORMAL, send_email := True, send_push := True\<rparr>)
       user w"

section \<open>Queries and transitions (services/alert\_service.py)\<close>





text \<open>
  \<^verbatim>\<open>get_pending_alerts\<close> takes no user and has no handler. In SQL a comparison with a
  null \<^verbatim>\<open>scheduled_for\<close> is not true, so such a row is not selected.
\<close>

definition get_pending_alerts :: "timestamp \<Rightarrow> world \<Rightarrow> py_exception + Alert list" where
  "get_pending_alerts now w =
     (case db_query (alerts w) of
        Inl e \<Rightarrow> Inl e
      | Inr rows \<Rightarrow>
          Inr (filter (\<lambda>a. status a = PENDING \<and>
                           (case scheduled_for a of None \<Rightarrow> False | Some t \<Rightarrow> t \<le> now))
                 rows))"

section \<open>The alert routes (routers/alerts.py)\<close>

text \<open>
  A route ends with its result, with the HTTP error it raises, or with an exception that
  nothing handles, which the framework answers with status 500.
\<close>

datatype http_error = HTTP_400 string | HTTP_404 string | HTTP_422 | Unhandled py_exception





text \<open>
  \<^verbatim>\<open>Query.update\<close> changes every row of the query and returns how many rows it
  matched: one pass over the table that counts as it goes.
\<close>

fun query_update :: "(Alert \<Rightarrow> bool) \<Rightarrow> (Alert \<Rightarrow> Alert) \<Rightarrow> Alert list \<Rightarrow> Alert list \<times> nat" where
  "query_update sel f [] = ([], 0)"
| "query_update sel f (r # rows) =
     (let (rows', n) = query_update sel f rows
      in if sel r then (f r # rows', Suc n) else (r # rows', n))"

text \<open>
  \<^verbatim>\<open>mark_all_alerts_as_read\<close> has no handler. Its result is the count that the
  message of the response reports.
\<close>

definition mark_all_alerts_as_read :: "timestamp \<Rightarrow> User \<Rightarrow> world \<Rightarrow> (http_error + nat) \<times> world" where
  "mark_all_alerts_as_read now current_user w =
     (case db_query (alerts w) of
        Inl e \<Rightarrow> (Inl (Unhandled e), w)
      | Inr rows \<Rightarrow>
          (let (rows', updated_count) =
                 query_update
                   (\<lambda>a. user_id a = u_id current_user \<and> (status a = PENDING \<or> status a = SENT))
                   (\<lambda>r. r\<lparr>status := READ, read_at := Some now\<rparr>)
                   rows
           in (Inr updated_count, w\<lparr>alerts := rows'\<rparr>)))"

section \<open>The calendar queries (services/calendar\_service.py)\<close>

text \<open>
  \<^verbatim>\<open>get_events_needing_reminders\<close> has no handler. It calls \<^verbatim>\<open>db.query\<close> and then
  builds the arguments of \<^verbatim>\<open>filter\<close> in Python, before any SQL runs; the third is
  \<^verbatim>\<open>now + timedelta(minutes=CalendarEvent.reminder_minutes_before)\<close>. The argument of
  \<^verbatim>\<open>timedelta\<close> is the column attribute of the class, not a number, and
  \<^verbatim>\<open>timedelta\<close> accepts only numbers: it raises \<^verbatim>\<open>TypeError\<close> for anything else.
\<close>

datatype py_value = PyInt int | PyColumn string

definition timedelta_minutes :: "py_value \<Rightarrow> py_exception + int" where
  "timedelta_minutes v = (case v of PyInt n \<Rightarrow> Inr (60 * n) | PyColumn c \<Rightarrow> Inl TypeError)"

definition get_events_needing_reminders :: "timestamp \<Rightarrow> world \<Rightarrow> py_exception + CalendarEvent list" where
  "get_events_needing_reminders now w =
     (case db_query (calendar_events w) of
        Inl e \<Rightarrow> Inl e
      | Inr rows \<Rightarrow>
          (case timedelta_minutes (PyColumn ''reminder_minutes_before'') of
             Inl e \<Rightarrow> Inl e
           | Inr d \<Rightarrow>
               Inr (filter (\<lambda>e. reminder_sent e = False \<and> start_datetime e > now
                                \<and> start_datetime e \<le> now + d)
                      rows)))"

definition mark_reminder_sent :: "CalendarEvent \<Rightarrow> world \<Rightarrow> world" where
  "mark_reminder_sent ev w =
     w\<lparr>calendar_events :=
         map (\<lambda>e. if ev_id e = ev_id ev then e\<lparr>reminder_sent := True\<rparr> else e)
           (calendar_events w)\<rparr>"

section \<open>The scheduled tasks (services/background\_tasks.py)\<close>

text \<open>
  A task reads the clock of the Python process several times within a fraction of a
  second; the model gives a run one reading of it, \<open>now\<close>.

  \<^verbatim>\<open>_process_new_email\<close>: both recipes are inside one \<^verbatim>\<open>try\<close>, so an exception of
  the first skips the second; the handler logs it.
\<close>

definition process_new_email :: "mailer \<Rightarrow> timestamp \<Rightarrow> Email \<Rightarrow> User \<Rightarrow> world \<Rightarrow> world" where
  "process_new_email mail now em user w =
     (case (if is_from_vip em
            then (case create_email_vip_alert mail now em user w of
                    (Inl e, w1) \<Rightarrow> Inl w1
                  | (Inr alert, w1) \<Rightarrow> Inr w1)
            else Inr w) of
        Inl w1 \<Rightarrow> w1\<lparr>log := log w1 @ [LogError ''Error processing new email'']\<rparr>
      | Inr w1 \<Rightarrow>
          (if is_emergency em
           then (case create_emergency_email_alert mail now em user w1 of
                   (Inl e, w2) \<Rightarrow> w2\<lparr>log := log w2 @ [LogError ''Error processing new email'']\<rparr>
                 | (Inr alert, w2) \<Rightarrow> w2)
           else w1))"

text \<open>
  The loop of \<^verbatim>\<open>send_meeting_reminders\<close>: the body of each round is inside \<^verbatim>\<open>try\<close>,
  and its handler logs and goes on with the next event.
\<close>

fun reminders_loop :: "mailer \<Rightarrow> timestamp \<Rightarrow> CalendarEvent list \<Rightarrow> world \<Rightarrow> world" where
  "reminders_loop mail now [] w = w"
| "reminders_loop mail now (ev # evs) w =
     (case db_query (users w) of
        Inl e \<Rightarrow>
          reminders_loop mail now evs
            (w\<lparr>log := log w @ [LogError ''Error sending reminder for event'']\<rparr>)
      | Inr rows \<Rightarrow>
          (case query_first (filter (\<lambda>u. u_id u = ev_user_id ev) rows) of
             None \<Rightarrow> reminders_loop mail now evs w
           | Some user \<Rightarrow>
               (case create_meeting_reminder_alert mail now ev user w of
                  (Inl e, w1) \<Rightarrow>
                    reminders_loop mail now evs
                      (w1\<lparr>log := log w1 @ [LogError ''Error sending reminder for event'']\<rparr>)
                | (Inr alert, w1) \<Rightarrow> reminders_loop mail now evs (mark_reminder_sent ev w1))))"

text \<open>An exception of the query reaches the handler of the task, which logs it.\<close>

definition send_meeting_reminders :: "mailer \<Rightarrow> timestamp \<Rightarrow> world \<Rightarrow> world" where
  "send_meeting_reminders mail now w =
     (case get_events_needing_reminders now w of
        Inl e \<Rightarrow> w\<lparr>log := log w @ [LogTaskError ''send_meeting_reminders'']\<rparr>
      | Inr events_needing_reminders \<Rightarrow> reminders_loop mail now events_needing_reminders w)"







text \<open>
  The sweep: every selected alert whose owner is found is dispatched. The body of each
  round is inside \<^verbatim>\<open>try\<close>; an exception of the query of the task reaches the handler
  of the task.
\<close>

fun pending_loop :: "mailer \<Rightarrow> timestamp \<Rightarrow> Alert list \<Rightarrow> world \<Rightarrow> world" where
  "pending_loop mail now [] w = w"
| "pending_loop mail now (alert # rest) w =
     (case db_query (users w) of
        Inl e \<Rightarrow>
          pending_loop mail now rest (w\<lparr>log := log w @ [LogError ''Error processing alert'']\<rparr>)
      | Inr rows \<Rightarrow>
          (case query_first (filter (\<lambda>u. u_id u = user_id alert) rows) of
             Some user \<Rightarrow>
               pending_loop mail now rest (snd (send_alert_notification mail now alert user w))
           | None \<Rightarrow> pending_loop mail now rest w))"

definition process_pending_alerts :: "mailer \<Rightarrow> timestamp \<Rightarrow> world \<Rightarrow> world" where
  "process_pending_alerts mail now w =
     (case get_pending_alerts now w of
        Inl e \<Rightarrow> w\<lparr>log := log w @ [LogTaskError ''process_pending_alerts'']\<rparr>
      | Inr pending_alerts \<Rightarrow> pending_loop mail now pending_alerts w)"

section \<open>Observations\<close>

text \<open>
  The column values of the constructor calls in a log, and the events of a log that are
  an attempt on a delivery channel.
\<close>

fun init_calls :: "event list \<Rightarrow> Alert list" where
  "init_calls [] = []"
| "init_calls (AlertInit values # evs) = values # init_calls evs"
| "init_calls (ev # evs) = init_calls evs"


section \<open>Sample data\<close>

text \<open>Concrete users, alerts and worlds on which the results below are evaluated.\<close>

definition ann :: User where
  "ann = \<lparr>u_id = 1, email = ''ann@example.org'', is_active = True,
          morning_briefing_time = Some ''08:00''\<rparr>"

definition bob :: User where
  "bob = \<lparr>u_id = 2, email = ''bob@example.org'', is_active = True,
          morning_briefing_time = Some ''07:30''\<rparr>"

definition sent_alert :: Alert where
  "sent_alert = (column_defaults 1 EMAIL_EMERGENCY)
     \<lparr>alert_id := 1, priority := URGENT, status := SENT, send_email := True,
      send_push := True, send_sms := True, scheduled_for := Some 90, sent_at := Some 100,
      created_at := 50\<rparr>"

definition unscheduled_alert :: Alert where
  "unscheduled_alert = (column_defaults 1 MEETING_REMINDER)\<lparr>alert_id := 2, created_at := 60\<rparr>"

definition due_alert :: Alert where
  "due_alert = (column_defaults 1 EMAIL_EMERGENCY)
     \<lparr>alert_id := 3, priority := URGENT, send_email := True, send_push := True,
      send_sms := True, scheduled_for := Some 150, created_at := 70\<rparr>"

definition read_alert :: Alert where
  "read_alert = (column_defaults 1 EMAIL_VIP)
     \<lparr>alert_id := 4, status := READ, sent_at := Some 100, read_at := Some 120,
      created_at := 55\<rparr>"

definition dismissed_alert :: Alert where
  "dismissed_alert = (column_defaults 1 EMAIL_VIP)
      \<lparr>alert_id := 5, status := DISMISSED, dismissed_at := Some 130, created_at := 60\<rparr>"

definition bob_alert :: Alert where
  "bob_alert = (column_defaults 2 SYSTEM)\<lparr>alert_id := 6, scheduled_for := Some 150, created_at := 80\<rparr>"

definition briefing_alert :: Alert where
  "briefing_alert = (column_defaults 1 MORNING_BRIEFING)
     \<lparr>alert_id := 7, status := SENT, send_email := True, sent_at := Some 115200,
      created_at := 115200\<rparr>"

definition mixed_world :: world where
  "mixed_world = \<lparr>alerts = [sent_alert, unscheduled_alert, due_alert, read_alert,
                               dismissed_alert, bob_alert, briefing_alert],
                     users = [ann, bob], calendar_events = [], db_clock = 200, log = []\<rparr>"

definition both_flags_email :: Email where
  "both_flags_email = \<lparr>e_id = 7, e_user_id = 1, is_emergency = True, is_from_vip = True\<rparr>"

definition meeting :: CalendarEvent where
  "meeting = \<lparr>ev_id = 1, ev_user_id = 1, start_datetime = 1600, start_tz_aware = True,
              reminder_sent = False, reminder_minutes_before = 15\<rparr>"

definition calendar_world :: world where
  "calendar_world = \<lparr>alerts = [], users = [ann], calendar_events = [meeting],
                      db_clock = 1000, log = []\<rparr>"

section \<open>The mapping as shipped\<close>

text \<open>
  The relationship \<^verbatim>\<open>Alert.calendar_event\<close> names \<^verbatim>\<open>alerts\<close> on
  \<^verbatim>\<open>CalendarEvent\<close>, which declares no such relationship, so the configuration of the
  mappers fails, and with it every query and every call of the constructor.
\<close>

lemma calendar_event_has_no_alerts:
  "\<not> has_relationship orm_mapping ''CalendarEvent'' ''alerts''"
  by (simp add: has_relationship_def orm_mapping_def)

lemma mapping_fails: "configure_mappers orm_mapping = Inl InvalidRequestError"
  by (simp add: configure_mappers_def has_relationship_def orm_mapping_def)

lemma db_query_raises: "db_query table = Inl InvalidRequestError"
  by (simp add: db_query_def mapping_fails)

lemma Alert_init_raises: "Alert_init values = Inl InvalidRequestError"
  by (simp add: Alert_init_def mapping_fails)

lemma construct_raises:
  "construct_and_dispatch mail now error_text values user w =
     (Inl InvalidRequestError, w\<lparr>log := log w @ [AlertInit values, LogError error_text]\<rparr>)"
  by (simp add: construct_and_dispatch_def Alert_init_raises Let_def)

lemma get_pending_alerts_raises: "get_pending_alerts now w = Inl InvalidRequestError"
  by (simp add: get_pending_alerts_def db_query_raises)

lemma sweep_result:
  "process_pending_alerts mail now w = w\<lparr>log := log w @ [LogTaskError ''process_pending_alerts'']\<rparr>"
  by (simp add: process_pending_alerts_def get_pending_alerts_raises)



lemma mark_all_result:
  "mark_all_alerts_as_read now cu w = (Inl (Unhandled InvalidRequestError), w)"
  by (simp add: mark_all_alerts_as_read_def db_query_raises)

lemma process_new_email_result:
  "process_new_email mail now em user w =
     (if is_from_vip em
      then w\<lparr>log := log w @ [AlertInit ((column_defaults (u_id user) EMAIL_VIP)
                  \<lparr>email_id := Some (e_id em), priority := HIGH,
                   send_email := True, send_push := True\<rparr>),
                LogError ''Error creating VIP email alert'',
                LogError ''Error processing new email'']\<rparr>
      else if is_emergency em
      then w\<lparr>log := log w @ [AlertInit ((column_defaults (u_id user) EMAIL_EMERGENCY)
                  \<lparr>email_id := Some (e_id em), priority := URGENT,
                   send_email := True, send_push := True, send_sms := True\<rparr>),
                LogError ''Error creating emergency email alert'',
                LogError ''Error processing new email'']\<rparr>
      else w)"
  by (simp add: process_new_email_def create_email_vip_alert_def
      create_emergency_email_alert_def construct_raises)


lemma new_events: "drop (length xs) (xs @ ys) = ys"
  by simp

section \<open>Dispatch\<close>




section \<open>The sweep\<close>

text \<open>
  C3 at a table that holds a pending alert, due since time 150, whose owner is in the
  users table: the query of the sweep raises instead of returning the alert, and the
  run at time 200 ends in the handler of the task, having dispatched nothing and
  changed no row.
\<close>

theorem C3_sweep_dispatches_nothing:
  "due_alert \<in> set (alerts mixed_world) \<and> status due_alert = PENDING
   \<and> scheduled_for due_alert = Some 150
   \<and> query_first (filter (\<lambda>u. u_id u = user_id due_alert) (users mixed_world)) = Some ann
   \<and> get_pending_alerts 200 mixed_world = Inl InvalidRequestError
   \<and> process_pending_alerts (\<lambda>_ _. ReturnsTrue) 200 mixed_world
       = mixed_world\<lparr>log := [LogTaskError ''process_pending_alerts'']\<rparr>"
  by (simp add: sweep_result get_pending_alerts_raises mixed_world_def due_alert_def
      column_defaults_def ann_def bob_def query_first_def)

section \<open>Transitions and queries of the store\<close>




text \<open>
  C6 at a user with two pending alerts and two sent ones: bulk mark-all-read raises at
  \<^verbatim>\<open>db.query\<close>, marks no row and returns no count.
\<close>

theorem C6_mark_all_read_raises:
  "map status (filter (\<lambda>a. user_id a = u_id ann) (alerts mixed_world))
     = [SENT, PENDING, PENDING, READ, DISMISSED, SENT]
   \<and> mark_all_alerts_as_read 300 ann mixed_world
       = (Inl (Unhandled InvalidRequestError), mixed_world)"
  by (simp add: mark_all_result mixed_world_def sent_alert_def unscheduled_alert_def
      due_alert_def read_alert_def dismissed_alert_def bob_alert_def briefing_alert_def
      column_defaults_def ann_def)

section \<open>Construction\<close>

lemma recipe_logs:
  "log (snd (create_email_vip_alert mail now em user w)) =
     log w @ [AlertInit ((column_defaults (u_id user) EMAIL_VIP)
                \<lparr>email_id := Some (e_id em), priority := HIGH,
                 send_email := True, send_push := True\<rparr>),
              LogError ''Error creating VIP email alert'']"
  "log (snd (create_emergency_email_alert mail now em user w)) =
     log w @ [AlertInit ((column_defaults (u_id user) EMAIL_EMERGENCY)
                \<lparr>email_id := Some (e_id em), priority := URGENT,
                 send_email := True, send_push := True, send_sms := True\<rparr>),
              LogError ''Error creating emergency email alert'']"
  "log (snd (create_meeting_reminder_alert mail now ev user w)) =
     log w @ (if start_tz_aware ev
              then [AlertInit ((column_defaults (u_id user) MEETING_REMINDER)
                      \<lparr>calendar_event_id := Some (ev_id ev), priority := NORMAL,
                       send_email := False, send_push := True\<rparr>)]
              else [])
           @ [LogError ''Error creating meeting reminder alert'']"
  "log (snd (create_morning_briefing_alert mail now user w)) =
     log w @ [AlertInit ((column_defaults (u_id user) MORNING_BRIEFING)
                \<lparr>priority := NORMAL, send_email := True, send_push := True\<rparr>),
              LogError ''Error creating morning briefing alert'']"
  by (simp_all add: create_email_vip_alert_def create_emergency_email_alert_def
      create_meeting_reminder_alert_def create_morning_briefing_alert_def construct_raises)

text \<open>
  C7. The emergency recipe calls the constructor once, for an alert of type
  email-emergency with the email, push and SMS flags all true. The meeting-reminder
  recipe calls it at most once (once when the start of the event carries a time zone),
  for an alert of type meeting-reminder with the push flag true and the email and SMS
  flags false. The two other recipes build alerts of other types. No recipe adds a row
  to the alerts table, since the constructor raises.
\<close>

theorem C7_channel_flags_by_type:
  "(let r = create_emergency_email_alert mail now em user w;
        calls = init_calls (drop (length (log w)) (log (snd r)))
    in length calls = 1
     \<and> list_all (\<lambda>k. alert_type k = EMAIL_EMERGENCY
                      \<and> send_email k \<and> send_push k \<and> send_sms k) calls
     \<and> alerts (snd r) = alerts w)
   \<and> (let r = create_meeting_reminder_alert mail now ev user w;
          calls = init_calls (drop (length (log w)) (log (snd r)))
      in length calls = (if start_tz_aware ev then 1 else 0)
       \<and> list_all (\<lambda>k. alert_type k = MEETING_REMINDER
                        \<and> \<not> send_email k \<and> send_push k \<and> \<not> send_sms k) calls
       \<and> alerts (snd r) = alerts w)
   \<and> map alert_type (init_calls (drop (length (log w))
         (log (snd (create_email_vip_alert mail now em user w))))) = [EMAIL_VIP]
   \<and> map alert_type (init_calls (drop (length (log w))
         (log (snd (create_morning_briefing_alert mail now user w))))) = [MORNING_BRIEFING]"
proof -
  have rows: "alerts (snd (create_emergency_email_alert mail now em user w)) = alerts w"
      "alerts (snd (create_meeting_reminder_alert mail now ev user w)) = alerts w"
    by (simp_all add: create_emergency_email_alert_def create_meeting_reminder_alert_def
        construct_raises)
  show ?thesis
    unfolding Let_def recipe_logs new_events rows
    by (simp add: column_defaults_def)
qed

text \<open>
  C9 at an email that is flagged both VIP and emergency: the VIP recipe raises at the
  constructor, the handler of \<^verbatim>\<open>_process_new_email\<close> logs the exception, and the
  emergency recipe is not called. No alert is created, where the claim has two.
\<close>

theorem C9_no_alert_for_vip_emergency_email:
  "is_from_vip both_flags_email \<and> is_emergency both_flags_email
   \<and> alerts (process_new_email (\<lambda>_ _. ReturnsTrue) 200 both_flags_email ann mixed_world)
       = alerts mixed_world
   \<and> map alert_type (init_calls
         (log (process_new_email (\<lambda>_ _. ReturnsTrue) 200 both_flags_email ann mixed_world)))
       = [EMAIL_VIP]
   \<and> filter (\<lambda>ev. ev = LogError ''Error processing new email'')
        (log (process_new_email (\<lambda>_ _. ReturnsTrue) 200 both_flags_email ann mixed_world))
       = [LogError ''Error processing new email'']"
  by (simp add: process_new_email_result both_flags_email_def mixed_world_def
      column_defaults_def)

section \<open>The daily briefing\<close>



section \<open>The reminder scan\<close>

text \<open>
  The query for the events that need a reminder raises on every call, so it returns no
  event, whatever the table holds.
\<close>

lemma reminder_query_never_returns:
  "get_events_needing_reminders now w = Inl InvalidRequestError"
  by (simp add: get_events_needing_reminders_def db_query_raises)

text \<open>
  C10 at an event with \<open>reminder_sent\<close> false that starts 10 minutes after the time of
  the query and has a reminder window of 15 minutes: the query raises instead of
  returning the event, at \<^verbatim>\<open>db.query\<close>; the bound of the window that it would
  compute next, \<^verbatim>\<open>timedelta\<close> of the column attribute, raises \<^verbatim>\<open>TypeError\<close> by
  itself. The reminder task ends in its handler, having created no alert and marked no
  event.
\<close>

theorem C10_reminder_query_raises:
  "reminder_sent meeting = False \<and> start_datetime meeting > 1000
   \<and> start_datetime meeting \<le> 1000 + 60 * reminder_minutes_before meeting
   \<and> meeting \<in> set (calendar_events calendar_world)
   \<and> get_events_needing_reminders 1000 calendar_world = Inl InvalidRequestError
   \<and> timedelta_minutes (PyColumn ''reminder_minutes_before'') = Inl TypeError
   \<and> send_meeting_reminders (\<lambda>_ _. ReturnsTrue) 1000 calendar_world
       = calendar_world\<lparr>log := [LogTaskError ''send_meeting_reminders'']\<rparr>"
  by (simp add: meeting_def calendar_world_def get_events_needing_reminders_def
      db_query_raises timedelta_minutes_def send_meeting_reminders_def)

end
